theory Spec2Isabelle
  imports Complex_Main "HOL-Library.Product_Lexorder"
begin

section \<open>Data model\<close>

text \<open>
  The tables of \<^verbatim>\<open>init_db\<close> in \<^verbatim>\<open>src/app.py\<close>. A \<^verbatim>\<open>REAL\<close> column is a
  real number here (Python floats without rounding), a \<^verbatim>\<open>TEXT\<close> date column holding an
  ISO date is the date's proleptic Gregorian ordinal (\<^verbatim>\<open>date.toordinal()\<close>: day 1 is
  Monday 0001-01-01), so that the order of the dates is the order of the ordinals.
  The overtime rule and the differential type stay strings, as the code compares them.
\<close>

type_synonym date = int

record job =
  id_job :: int
  name :: string
  base_rate :: real
  ot_rule :: string
  ot_multiplier :: real
  diff_type :: string
  diff_value :: real
  active :: bool

record shift =
  shift_id :: int
  job_id :: int
  shift_date :: date
  hours :: real
  shift_kind :: string

record expense =
  expense_id :: int
  category :: string
  amount :: real
  expense_date :: date
  recurring :: bool

section \<open>Differential and single-shift earnings\<close>

text \<open>\<^verbatim>\<open>calc_differential(base_rate, diff_type, diff_value)\<close>, lines 170-174.\<close>

definition calc_differential :: "real \<Rightarrow> string \<Rightarrow> real \<Rightarrow> real" where
  "calc_differential b t v = (if t = ''percent'' then b * (v / 100) else v)"

text \<open>
  The local \<^verbatim>\<open>rate_with_diff\<close>, computed the same way in \<^verbatim>\<open>calc_shift_earnings\<close>
  (lines 181-183) and in the weekly adjustment (lines 236-238).
\<close>

definition rate_with_diff :: "job \<Rightarrow> real" where
  "rate_with_diff j =
     base_rate j + calc_differential (base_rate j) (diff_type j) (diff_value j)"

text \<open>
  \<^verbatim>\<open>calc_shift_earnings(row, job)\<close>, lines 176-193: the triple
  (earnings, regular hours, overtime hours).
\<close>

definition calc_shift_earnings :: "shift \<Rightarrow> job \<Rightarrow> real \<times> real \<times> real" where
  "calc_shift_earnings row j =
     (let r = rate_with_diff j; h = hours row in
      if ot_rule j = ''daily_8'' then
        (let regular_hours = min 8 h; ot_hours = max 0 (h - 8) in
         (regular_hours * r + ot_hours * (r * ot_multiplier j), regular_hours, ot_hours))
      else (h * r, h, 0))"

section \<open>Calendar\<close>

text \<open>
  The calendar functions the engine calls on its date columns. \<^verbatim>\<open>weekday\<close> is
  \<^verbatim>\<open>date.weekday()\<close> (Monday is 0). \<^verbatim>\<open>isocalendar\<close> is the ISO 8601 year and week
  number behind \<^verbatim>\<open>.dt.isocalendar()\<close>, computed from the ordinal as
  \<^verbatim>\<open>datetime.date.isocalendar\<close> does.
\<close>

definition weekday :: "date \<Rightarrow> int" where
  "weekday d = (d + 6) mod 7"

definition days_before_year :: "int \<Rightarrow> int" where
  "days_before_year y = (y - 1) * 365 + (y - 1) div 4 - (y - 1) div 100 + (y - 1) div 400"

definition ord2year :: "date \<Rightarrow> int" where
  "ord2year d =
     (let n = d - 1;
          n400 = n div 146097; na = n mod 146097;
          n100 = na div 36524; nb = na mod 36524;
          n4 = nb div 1461; nc = nb mod 1461;
          n1 = nc div 365;
          y = n400 * 400 + 1 + n100 * 100 + n4 * 4 + n1
      in if n1 = 4 \<or> n100 = 4 then y - 1 else y)"

definition isoweek1monday :: "int \<Rightarrow> date" where
  "isoweek1monday y =
     (let firstday = days_before_year y + 1;
          firstweekday = (firstday + 6) mod 7;
          week1monday = firstday - firstweekday
      in if firstweekday > 3 then week1monday + 7 else week1monday)"

definition isocalendar :: "date \<Rightarrow> int \<times> int" where
  "isocalendar d =
     (let y = ord2year d; wk = (d - isoweek1monday y) div 7 in
      if wk < 0 then (y - 1, (d - isoweek1monday (y - 1)) div 7 + 1)
      else if wk \<ge> 52 \<and> d \<ge> isoweek1monday (y + 1) then (y + 1, 1)
      else (y, wk + 1))"

text \<open>
  \<^verbatim>\<open>.to_period('W-MON')\<close> followed by \<^verbatim>\<open>.start_time\<close>, the key of the weekly
  buckets (lines 264, 266 and 273). In pandas the anchored weekly frequency
  \<^verbatim>\<open>W-MON\<close> names weeks that \<^emph>\<open>end\<close> on a Monday (as the default \<^verbatim>\<open>W\<close>, that is
  \<^verbatim>\<open>W-SUN\<close>, names weeks that end on a Sunday), so the period that contains a date
  runs from a Tuesday to the Monday after it, and its start is the latest Tuesday not
  after the date.
\<close>

definition period_W_MON_start :: "date \<Rightarrow> date" where
  "period_W_MON_start d = d - (weekday d + 6) mod 7"

text \<open>The Monday on or before a date: the start of the Monday-start week containing it.\<close>

definition monday_of_week :: "date \<Rightarrow> date" where
  "monday_of_week d = d - weekday d"

section \<open>The engine\<close>

text \<open>
  What \<^verbatim>\<open>compute_financials(settings)\<close> reads besides its argument: the three tables
  through \<^verbatim>\<open>list_jobs\<close> and \<^verbatim>\<open>fetch_df\<close>, and the system clock through
  \<^verbatim>\<open>date.today()\<close> (line 272). A table is the list of its rows in insertion order;
  \<^verbatim>\<open>id\<close> is the primary key of each table.
\<close>

record world =
  db_jobs :: "job list"
  db_shifts :: "shift list"
  db_expenses :: "expense list"
  clock_today :: date

record settings =
  currency :: string
  show_annual :: bool
  week_monday :: bool

text \<open>
  The exceptions of the frame operations the engine performs: \<^verbatim>\<open>jobs.loc[job_id]\<close>
  raises \<^verbatim>\<open>KeyError\<close> on an index value that is absent, and assigning a list as a
  column raises \<^verbatim>\<open>ValueError\<close> when its length is not the number of rows.
\<close>

datatype error = KeyError int | ValueError

text \<open>
  A row of \<^verbatim>\<open>shifts\<close> after the merge with the jobs and the columns added by lines
  223-229, and a row of the final frame, with \<^verbatim>\<open>earnings\<close> (line 255) and
  \<^verbatim>\<open>week_start\<close> (line 264).
\<close>

record srow =
  sh :: shift
  jb :: job
  earnings_initial :: real
  daily_regular_hours :: real
  daily_ot_hours :: real
  week :: int
  year :: int

record frow =
  cols :: srow
  earnings :: real
  week_start :: date

record erow =
  ex :: expense
  exp_week_start :: date

record financials =
  out_jobs :: "job list"
  out_shifts :: "frow list"
  out_expenses :: "erow list"
  weekly_earnings :: "(date \<times> real) list"
  weekly_expenses :: "(date \<times> real) list"
  earnings_this_week :: real
  expenses_this_week :: real
  net_this_week :: real
  projected_annual_net :: real

text \<open>\<^verbatim>\<open>list_jobs(active_only)\<close>, lines 117-121.\<close>

definition list_jobs :: "bool \<Rightarrow> job list \<Rightarrow> job list" where
  "list_jobs active_only tbl = (if active_only then filter active tbl else tbl)"

text \<open>
  \<^verbatim>\<open>shifts.merge(jobs.reset_index(), left_on="job_id", right_on="id")\<close>, line 207:
  an inner join, which keeps the order of the left rows and has no row for a shift
  whose \<^verbatim>\<open>job_id\<close> matches no job.
\<close>

definition merge_jobs :: "shift list \<Rightarrow> job list \<Rightarrow> (shift \<times> job) list" where
  "merge_jobs shifts jobs =
     concat (map (\<lambda>s. map (\<lambda>j. (s, j)) (filter (\<lambda>j. id_job j = job_id s) jobs)) shifts)"

text \<open>The body of the loop of lines 212-222 with the columns of lines 223-229.\<close>

definition attach_earnings :: "shift \<times> job \<Rightarrow> srow" where
  "attach_earnings sj =
     (case sj of (s, j) \<Rightarrow>
        (case calc_shift_earnings s j of (e, rhrs, othrs) \<Rightarrow>
           \<lparr>sh = s, jb = j, earnings_initial = e, daily_regular_hours = rhrs,
            daily_ot_hours = othrs, week = snd (isocalendar (shift_date s)),
            year = fst (isocalendar (shift_date s))\<rparr>))"

text \<open>
  \<^verbatim>\<open>DataFrame.groupby(keys)\<close>, iterated: the groups come in ascending order of their
  key, and each holds its rows in the order they have in the frame.
\<close>

definition groupby :: "('a \<Rightarrow> 'k::linorder) \<Rightarrow> 'a list \<Rightarrow> ('k \<times> 'a list) list" where
  "groupby key xs = map (\<lambda>k. (k, filter (\<lambda>x. key x = k) xs)) (sort (remdups (map key xs)))"

definition group_key :: "srow \<Rightarrow> int \<times> int \<times> int" where
  "group_key r = (job_id (sh r), year r, week r)"

text \<open>\<^verbatim>\<open>jobs.loc[job_id]\<close> on the jobs indexed by \<^verbatim>\<open>id\<close>, line 232.\<close>

definition jobs_loc :: "job list \<Rightarrow> int \<Rightarrow> error + job" where
  "jobs_loc jobs k =
     (case find (\<lambda>j. id_job j = k) jobs of None \<Rightarrow> Inl (KeyError k) | Some j \<Rightarrow> Inr j)"

text \<open>
  The inner loop of lines 245-253 over the hours of a group's rows: for each row the
  regular hours, the overtime hours and the pay; \<^verbatim>\<open>job_adj\<close> keeps the pay.
\<close>

fun weekly_loop :: "real \<Rightarrow> real \<Rightarrow> real \<Rightarrow> real list \<Rightarrow> (real \<times> real \<times> real) list" where
  "weekly_loop r m reg_left [] = []"
| "weekly_loop r m reg_left (h # hs) =
     (let reg = min reg_left h; ot = max 0 (h - reg) in
      (reg, ot, reg * r + ot * (r * m)) # weekly_loop r m (reg_left - reg) hs)"

definition pay_of :: "real \<times> real \<times> real \<Rightarrow> real" where
  "pay_of t = snd (snd t)"

text \<open>The body of the loop over the groups, lines 232-254: what one group appends.\<close>

definition adjust_group :: "job list \<Rightarrow> (int \<times> int \<times> int) \<times> srow list \<Rightarrow> error + real list" where
  "adjust_group jobs kg =
     (case kg of ((jid, y, wk), grp) \<Rightarrow>
        (case jobs_loc jobs jid of
           Inl e \<Rightarrow> Inl e
         | Inr j \<Rightarrow>
             if ot_rule j \<noteq> ''weekly_40'' then Inr (map earnings_initial grp)
             else
               (let r = rate_with_diff j; ot_mult = ot_multiplier j;
                    total_hours = sum_list (map (\<lambda>x. hours (sh x)) grp)
                in if total_hours \<le> 40 then Inr (map (\<lambda>x. hours (sh x) * r) grp)
                   else Inr (map pay_of
                               (weekly_loop r ot_mult 40 (map (\<lambda>x. hours (sh x)) grp))))))"

fun adjust_all :: "job list \<Rightarrow> ((int \<times> int \<times> int) \<times> srow list) list \<Rightarrow> error + real list" where
  "adjust_all jobs [] = Inr []"
| "adjust_all jobs (g # gs) =
     (case adjust_group jobs g of
        Inl e \<Rightarrow> Inl e
      | Inr ps \<Rightarrow> (case adjust_all jobs gs of Inl e \<Rightarrow> Inl e | Inr qs \<Rightarrow> Inr (ps @ qs)))"

text \<open>
  Lines 205-257 and 264: the final rows of \<^verbatim>\<open>shifts\<close>. The list
  \<^verbatim>\<open>adjusted_earnings\<close>, built group by group, becomes the column \<^verbatim>\<open>earnings\<close> by
  position (line 255).
\<close>

definition shift_rows :: "job list \<Rightarrow> shift list \<Rightarrow> error + frow list" where
  "shift_rows jobs shifts =
     (if shifts = [] then Inr []
      else
        (let rows = map attach_earnings (merge_jobs shifts jobs) in
         case adjust_all jobs (groupby group_key rows) of
           Inl e \<Rightarrow> Inl e
         | Inr adjusted_earnings \<Rightarrow>
             if length adjusted_earnings \<noteq> length rows then Inl ValueError
             else Inr (map (\<lambda>(r, e). \<lparr>cols = r, earnings = e,
                                        week_start = period_W_MON_start (shift_date (sh r))\<rparr>)
                         (zip rows adjusted_earnings))))"

definition expense_rows :: "expense list \<Rightarrow> erow list" where
  "expense_rows expenses =
     map (\<lambda>x. \<lparr>ex = x, exp_week_start = period_W_MON_start (expense_date x)\<rparr>) expenses"

text \<open>\<^verbatim>\<open>groupby("week_start")[col].sum().reset_index()\<close>, lines 268-269.\<close>

definition weekly_sum :: "('a \<Rightarrow> date) \<Rightarrow> ('a \<Rightarrow> real) \<Rightarrow> 'a list \<Rightarrow> (date \<times> real) list" where
  "weekly_sum key col xs = map (\<lambda>(k, g). (k, sum_list (map col g))) (groupby key xs)"

text \<open>
  \<^verbatim>\<open>pd.merge(..., how="outer", on="week_start")\<close> of two frames whose keys are
  unique, and \<^verbatim>\<open>.fillna(0.0)\<close>, line 279. A value missing on one side is \<open>None\<close>
  (NaN) until it is filled.
\<close>

definition outer_merge ::
  "(date \<times> real) list \<Rightarrow> (date \<times> real) list \<Rightarrow> (date \<times> real option \<times> real option) list" where
  "outer_merge l r =
     map (\<lambda>k. (k, map_of l k, map_of r k)) (sort (remdups (map fst l @ map fst r)))"

definition fillna :: "real \<Rightarrow> (date \<times> real option \<times> real option) list \<Rightarrow> (date \<times> real \<times> real) list" where
  "fillna z ws =
     map (\<lambda>(k, e, a). (k, (case e of None \<Rightarrow> z | Some v \<Rightarrow> v),
                          (case a of None \<Rightarrow> z | Some v \<Rightarrow> v))) ws"

text \<open>\<^verbatim>\<open>frame.loc[frame["week_start"] == current_week_start, col].sum()\<close>, lines 274-275.\<close>

definition this_week :: "date \<Rightarrow> (date \<times> real) list \<Rightarrow> real" where
  "this_week cws series = sum_list (map snd (filter (\<lambda>kv. fst kv = cws) series))"

text \<open>Lines 278-284.\<close>

definition annual_projection :: "(date \<times> real) list \<Rightarrow> (date \<times> real) list \<Rightarrow> real" where
  "annual_projection we wx =
     (let all_weeks = fillna 0 (outer_merge we wx);
          avg_weekly_net =
            (if length all_weeks > 0
             then sum_list (map (\<lambda>(k, e, a). e - a) all_weeks) / real (length all_weeks)
             else 0)
      in avg_weekly_net * 52)"

text \<open>Lines 259-296, from the final shift rows on.\<close>

definition summarise :: "job list \<Rightarrow> frow list \<Rightarrow> expense list \<Rightarrow> date \<Rightarrow> financials" where
  "summarise jobs rows expenses today =
     (let erows = expense_rows expenses;
          we = weekly_sum week_start earnings rows;
          wx = weekly_sum exp_week_start (\<lambda>x. amount (ex x)) erows;
          current_week_start = period_W_MON_start today;
          etw = this_week current_week_start we;
          xtw = this_week current_week_start wx
      in \<lparr>out_jobs = jobs, out_shifts = rows, out_expenses = erows,
          weekly_earnings = we, weekly_expenses = wx,
          earnings_this_week = etw, expenses_this_week = xtw,
          net_this_week = etw - xtw,
          projected_annual_net = annual_projection we wx\<rparr>)"

text \<open>
  \<^verbatim>\<open>compute_financials(settings)\<close>, lines 195-296. The two queries order their rows by
  date; rows of equal date keep their insertion order.
\<close>

definition compute_financials :: "settings \<Rightarrow> world \<Rightarrow> error + financials" where
  "compute_financials st w =
     (let jobs = list_jobs True (db_jobs w);
          shifts = sort_key shift_date (db_shifts w);
          expenses = sort_key expense_date (db_expenses w)
      in case shift_rows jobs shifts of
           Inl e \<Rightarrow> Inl e
         | Inr rows \<Rightarrow> Inr (summarise jobs rows expenses (clock_today w)))"

text \<open>The job and the shift of the end-to-end example of the specification.\<close>

definition job_A :: job where
  "job_A = \<lparr>id_job = 1, name = ''A'', base_rate = 38, ot_rule = ''daily_8'',
            ot_multiplier = 3 / 2, diff_type = ''percent'', diff_value = 0, active = True\<rparr>"

definition shift_10h :: shift where
  "shift_10h = \<lparr>shift_id = 1, job_id = 1, shift_date = 738886, hours = 10,
                shift_kind = ''Day''\<rparr>"

section \<open>The figures of the specification\<close>

text \<open>
  The value of a weekly series at a week, 0 where the week is absent, and the annual
  projection as the specification words it: the mean, over the weeks present in either
  series, of earnings less expenses, times 52, and 0 when there is no such week.
\<close>

definition series_value :: "(date \<times> real) list \<Rightarrow> date \<Rightarrow> real" where
  "series_value series k = (case map_of series k of None \<Rightarrow> 0 | Some v \<Rightarrow> v)"

definition mean_net_times_52 :: "(date \<times> real) list \<Rightarrow> (date \<times> real) list \<Rightarrow> real" where
  "mean_net_times_52 we wx =
     (let W = fst ` set we \<union> fst ` set wx in
      if W = {} then 0
      else (\<Sum>k\<in>W. series_value we k - series_value wx k) / real (card W) * 52)"

text \<open>A column of the final shift frame, when the engine returns one.\<close>

definition column :: "(frow \<Rightarrow> 'a) \<Rightarrow> error + financials \<Rightarrow> error + 'a list" where
  "column f res = map_sum id (\<lambda>F. map f (out_shifts F)) res"

section \<open>Sample data\<close>

text \<open>
  The two jobs \<^verbatim>\<open>init_db\<close> seeds (lines 69-74), job B of the specification's second
  example, and small databases around them. Ordinal 738886 is Monday 2024-01-01,
  738887 the Tuesday after it, 738893 Monday 2024-01-08.
\<close>

definition rn_staff :: job where
  "rn_staff = \<lparr>id_job = 1, name = ''RN - Staff'', base_rate = 38, ot_rule = ''weekly_40'',
               ot_multiplier = 3 / 2, diff_type = ''percent'', diff_value = 10,
               active = True\<rparr>"

definition rn_prn :: job where
  "rn_prn = \<lparr>id_job = 2, name = ''RN - PRN'', base_rate = 55, ot_rule = ''daily_8'',
             ot_multiplier = 3 / 2, diff_type = ''fixed'', diff_value = 2, active = True\<rparr>"

definition job_B :: job where
  "job_B = \<lparr>id_job = 1, name = ''B'', base_rate = 55, ot_rule = ''weekly_40'',
            ot_multiplier = 3 / 2, diff_type = ''fixed'', diff_value = 2, active = True\<rparr>"

definition st0 :: settings where
  "st0 = \<lparr>currency = ''$'', show_annual = True, week_monday = False\<rparr>"

definition mk_shift :: "int \<Rightarrow> int \<Rightarrow> date \<Rightarrow> real \<Rightarrow> shift" where
  "mk_shift i j d h = \<lparr>shift_id = i, job_id = j, shift_date = d, hours = h, shift_kind = ''Day''\<rparr>"

definition mk_expense :: "int \<Rightarrow> real \<Rightarrow> date \<Rightarrow> expense" where
  "mk_expense i a d =
     \<lparr>expense_id = i, category = ''Gas'', amount = a, expense_date = d, recurring = False\<rparr>"

text \<open>
  Two active jobs whose shifts alternate: the per-diem job works Monday, the staff job
  Tuesday.
\<close>

definition world_two_jobs :: world where
  "world_two_jobs =
     \<lparr>db_jobs = [rn_staff, rn_prn],
      db_shifts = [mk_shift 1 2 738886 8, mk_shift 2 1 738887 10],
      db_expenses = [], clock_today = 738890\<rparr>"

text \<open>Job B's week of the specification: 12, 12, 12 and 8 hours, Monday to Thursday.\<close>

definition world_busy_week :: world where
  "world_busy_week =
     \<lparr>db_jobs = [job_B],
      db_shifts = [mk_shift 1 1 738886 12, mk_shift 2 1 738887 12, mk_shift 3 1 738888 12,
                   mk_shift 4 1 738889 8],
      db_expenses = [], clock_today = 738889\<rparr>"

text \<open>
  Job A with a shift on Tuesday 2024-01-02 and one on Monday 2024-01-08, an expense on
  that Monday, and the clock on that Monday.
\<close>

definition world_monday :: world where
  "world_monday =
     \<lparr>db_jobs = [job_A],
      db_shifts = [mk_shift 1 1 738887 8, mk_shift 2 1 738893 8],
      db_expenses = [mk_expense 1 60 738893], clock_today = 738893\<rparr>"

text \<open>
  The staff job active, the per-diem job switched off, and three shifts: one of each job
  and one whose job is in no row of the table.
\<close>

definition world_inactive :: world where
  "world_inactive =
     \<lparr>db_jobs = [rn_staff, rn_prn\<lparr>active := False\<rparr>],
      db_shifts = [mk_shift 1 1 738886 10, mk_shift 2 2 738887 12, mk_shift 3 9 738888 6],
      db_expenses = [], clock_today = 738890\<rparr>"

text \<open>The rows of that week after the merge and the loop of lines 212-222.\<close>

definition busy_week_rows :: "srow list" where
  "busy_week_rows = map attach_earnings (merge_jobs (db_shifts world_busy_week) [job_B])"

text \<open>The two alternating jobs and an expense in an earlier week without shifts.\<close>

definition world_three_weeks :: world where
  "world_three_weeks = world_two_jobs\<lparr>db_expenses := [mk_expense 1 1498 738860]\<rparr>"

section \<open>Properties of the calculators\<close>

text \<open>
  Claim C2. For a \<^verbatim>\<open>daily_8\<close> job and a shift of \<open>h \<ge> 0\<close> hours, with \<open>r\<close> the
  differential-adjusted rate and \<open>m\<close> the overtime multiplier: when \<open>h \<le> 8\<close> the shift
  has \<open>h\<close> regular hours, no overtime and earns \<open>h * r\<close>; when \<open>h > 8\<close> it has 8
  regular hours, \<open>h - 8\<close> overtime hours and earns \<open>8 * r + (h - 8) * r * m\<close>. With
  base rate 38, no differential, multiplier 1.5 and 10 hours the earnings are 418.
\<close>

theorem calc_shift_earnings_daily_8:
  assumes "ot_rule j = ''daily_8''" and "0 \<le> hours row"
  shows "(hours row \<le> 8 \<longrightarrow>
            calc_shift_earnings row j = (hours row * rate_with_diff j, hours row, 0))
       \<and> (8 < hours row \<longrightarrow>
            calc_shift_earnings row j =
              (8 * rate_with_diff j + (hours row - 8) * rate_with_diff j * ot_multiplier j,
               8, hours row - 8))
       \<and> calc_shift_earnings shift_10h job_A = (418, 8, 2)"
proof (intro conjI impI)
  assume "hours row \<le> 8"
  with assms(1) show "calc_shift_earnings row j = (hours row * rate_with_diff j, hours row, 0)"
    by (simp add: calc_shift_earnings_def Let_def min_def max_def)
next
  assume "8 < hours row"
  with assms(1) show "calc_shift_earnings row j =
      (8 * rate_with_diff j + (hours row - 8) * rate_with_diff j * ot_multiplier j,
       8, hours row - 8)"
    by (simp add: calc_shift_earnings_def Let_def min_def max_def)
next
  show "calc_shift_earnings shift_10h job_A = (418, 8, 2)"
    by (simp add: calc_shift_earnings_def rate_with_diff_def calc_differential_def
        job_A_def shift_10h_def Let_def)
qed

theorem calc_shift_earnings_daily_8_witness:
  "ot_rule job_A = ''daily_8'' \<and> 0 \<le> hours shift_10h \<and> 8 < hours shift_10h
   \<and> calc_shift_earnings shift_10h job_A =
       (8 * rate_with_diff job_A
          + (hours shift_10h - 8) * rate_with_diff job_A * ot_multiplier job_A,
        8, hours shift_10h - 8)
   \<and> calc_shift_earnings shift_10h job_A = (418, 8, 2)"
proof -
  have r: "ot_rule job_A = ''daily_8''" and h: "0 \<le> hours shift_10h"
    and g: "8 < hours shift_10h"
    by (simp_all add: job_A_def shift_10h_def)
  from calc_shift_earnings_daily_8 [OF r h] r h g show ?thesis
    by blast
qed

text \<open>
  Claim C8. The differential is \<open>base_rate * value / 100\<close> for the type
  \<^verbatim>\<open>percent\<close> and the value itself, whatever the base rate, for the type
  \<^verbatim>\<open>fixed\<close>. It is added to the base rate before hours are priced: a shift's earnings
  are its regular hours at \<open>base_rate + differential\<close> plus its overtime hours at
  \<open>(base_rate + differential) * multiplier\<close>, so each further overtime hour of a
  \<^verbatim>\<open>daily_8\<close> shift adds \<open>(base_rate + differential) * multiplier\<close>.
\<close>

theorem calc_differential_priced:
  "calc_differential b ''percent'' v = b * v / 100
   \<and> calc_differential b ''fixed'' v = v
   \<and> (case calc_shift_earnings row j of (e, reg, ot) \<Rightarrow>
        e = reg * (base_rate j + calc_differential (base_rate j) (diff_type j) (diff_value j))
          + ot * ((base_rate j + calc_differential (base_rate j) (diff_type j) (diff_value j))
                  * ot_multiplier j))
   \<and> (ot_rule j = ''daily_8'' \<and> 8 \<le> hours row \<and> 0 \<le> d \<longrightarrow>
        fst (calc_shift_earnings (row\<lparr>hours := hours row + d\<rparr>) j)
          = fst (calc_shift_earnings row j)
            + d * ((base_rate j
                    + calc_differential (base_rate j) (diff_type j) (diff_value j))
                   * ot_multiplier j))"
  by (simp add: calc_differential_def calc_shift_earnings_def rate_with_diff_def Let_def
      min_def max_def algebra_simps)

theorem calc_differential_priced_witness:
  "ot_rule job_A = ''daily_8'' \<and> 8 \<le> hours shift_10h \<and> (0::real) \<le> 2
   \<and> fst (calc_shift_earnings (shift_10h\<lparr>hours := hours shift_10h + 2\<rparr>) job_A)
       = fst (calc_shift_earnings shift_10h job_A) + 2 * ((38 + 0) * (3 / 2))
   \<and> fst (calc_shift_earnings (shift_10h\<lparr>hours := hours shift_10h + 2\<rparr>) job_A) = 532"
  using calc_differential_priced [where b = 38 and v = 0 and row = shift_10h and j = job_A and d = 2]
  by (simp add: calc_differential_def calc_shift_earnings_def rate_with_diff_def Let_def
      job_A_def shift_10h_def)

text \<open>
  Claim C9. In both branches of \<^verbatim>\<open>calc_shift_earnings\<close> the regular and the overtime
  hours add up to the shift's hours, and neither is negative when the hours are not.
\<close>

theorem calc_shift_earnings_split:
  "(case calc_shift_earnings row j of (e, reg, ot) \<Rightarrow>
      reg + ot = hours row \<and> (0 \<le> hours row \<longrightarrow> 0 \<le> reg \<and> 0 \<le> ot))"
  by (simp add: calc_shift_earnings_def Let_def min_def max_def)

theorem calc_shift_earnings_split_witness:
  "0 \<le> hours shift_10h
   \<and> (case calc_shift_earnings shift_10h job_A of (e, reg, ot) \<Rightarrow>
        reg + ot = hours shift_10h \<and> 0 \<le> reg \<and> 0 \<le> ot \<and> reg = 8 \<and> ot = 2)"
  using calc_shift_earnings_split [where row = shift_10h and j = job_A]
  by (simp add: calc_shift_earnings_def Let_def job_A_def shift_10h_def)

text \<open>
  Claim C10. \<^verbatim>\<open>calc_differential\<close> returns the raw value for every differential
  type other than \<^verbatim>\<open>percent\<close>, and \<^verbatim>\<open>calc_shift_earnings\<close> takes the provisional
  weekly branch (all hours regular, earnings \<open>hours * rate\<close>) for every overtime rule
  other than \<^verbatim>\<open>daily_8\<close>. Neither function has a raising branch: both are total and
  return a value for an unrecognised type or rule.
\<close>

theorem unrecognized_values_fall_through:
  "(t \<noteq> ''percent'' \<longrightarrow> calc_differential b t v = v)
   \<and> (ot_rule j \<noteq> ''daily_8'' \<longrightarrow>
        calc_shift_earnings row j = (hours row * rate_with_diff j, hours row, 0))"
  by (simp add: calc_differential_def calc_shift_earnings_def Let_def)

theorem unrecognized_values_fall_through_witness:
  "''bonus'' \<noteq> ''percent'' \<and> calc_differential 38 ''bonus'' 7 = 7
   \<and> ot_rule (job_A\<lparr>ot_rule := ''biweekly_80'', diff_type := ''bonus'', diff_value := 7\<rparr>)
        \<noteq> ''daily_8''
   \<and> calc_shift_earnings shift_10h
        (job_A\<lparr>ot_rule := ''biweekly_80'', diff_type := ''bonus'', diff_value := 7\<rparr>)
      = (450, 10, 0)"
  using unrecognized_values_fall_through
    [where t = "''bonus''" and b = 38 and v = 7 and row = shift_10h
       and j = "job_A\<lparr>ot_rule := ''biweekly_80'', diff_type := ''bonus'', diff_value := 7\<rparr>"]
  by (simp add: rate_with_diff_def calc_differential_def job_A_def shift_10h_def)

section \<open>The engine never raises\<close>

text \<open>
  Every group key comes from a merged row, whose job is in the job frame, so the lookup
  of line 232 succeeds; and the groups partition the rows, so the list assigned at
  line 255 has one entry for each row.
\<close>

lemma indicator_sum_list:
  "distinct ks \<Longrightarrow> a \<in> set ks \<Longrightarrow> (\<Sum>k\<leftarrow>ks. if a = k then (1::nat) else 0) = 1"
  by (induction ks) auto

lemma group_sizes:
  assumes "distinct ks" and "key ` set xs \<subseteq> set ks"
  shows "(\<Sum>k\<leftarrow>ks. length (filter (\<lambda>x. key x = k) xs)) = length xs"
  using assms(2)
proof (induction xs)
  case Nil
  show ?case by simp
next
  case (Cons x xs)
  have "(\<Sum>k\<leftarrow>ks. length (filter (\<lambda>y. key y = k) (x # xs)))
      = (\<Sum>k\<leftarrow>ks. (if key x = k then 1 else 0) + length (filter (\<lambda>y. key y = k) xs))"
    by (rule arg_cong [where f = sum_list]) simp
  also have "\<dots> = (\<Sum>k\<leftarrow>ks. if key x = k then 1 else 0)
                  + (\<Sum>k\<leftarrow>ks. length (filter (\<lambda>y. key y = k) xs))"
    by (simp add: sum_list_addf)
  also have "\<dots> = 1 + length xs"
    using Cons assms(1) by (simp add: indicator_sum_list)
  finally show ?case by simp
qed

lemma groupby_keys: "map fst (groupby key xs) = sort (remdups (map key xs))"
  by (simp add: groupby_def comp_def)

lemma groupby_sizes: "(\<Sum>g\<leftarrow>groupby key xs. length (snd g)) = length xs"
proof -
  have "(\<Sum>g\<leftarrow>groupby key xs. length (snd g))
      = (\<Sum>k\<leftarrow>sort (remdups (map key xs)). length (filter (\<lambda>x. key x = k) xs))"
    by (simp add: groupby_def comp_def)
  also have "\<dots> = length xs"
    by (rule group_sizes) simp_all
  finally show ?thesis .
qed

lemma length_weekly_loop: "length (weekly_loop r m reg_left hs) = length hs"
  by (induction hs arbitrary: reg_left) (simp_all add: Let_def)

lemma adjust_group_length:
  assumes "jobs_loc jobs (fst (fst g)) = Inr j"
  shows "\<exists>ps. adjust_group jobs g = Inr ps \<and> length ps = length (snd g)"
  using assms
  by (cases g) (auto simp: adjust_group_def Let_def length_weekly_loop split: prod.splits)

lemma adjust_all_length:
  assumes "\<forall>g\<in>set gs. \<exists>j. jobs_loc jobs (fst (fst g)) = Inr j"
  shows "\<exists>ys. adjust_all jobs gs = Inr ys \<and> length ys = (\<Sum>g\<leftarrow>gs. length (snd g))"
  using assms
proof (induction gs)
  case Nil
  show ?case by simp
next
  case (Cons g gs)
  then obtain j where "jobs_loc jobs (fst (fst g)) = Inr j" by auto
  then obtain ps where ps: "adjust_group jobs g = Inr ps" "length ps = length (snd g)"
    using adjust_group_length by blast
  from Cons obtain ys where ys: "adjust_all jobs gs = Inr ys"
      "length ys = (\<Sum>g\<leftarrow>gs. length (snd g))"
    by auto
  from ps ys show ?case by simp
qed

lemma jobs_loc_found: "j \<in> set jobs \<Longrightarrow> id_job j = k \<Longrightarrow> \<exists>j'. jobs_loc jobs k = Inr j'"
  by (cases "find (\<lambda>j. id_job j = k) jobs") (auto simp: jobs_loc_def find_None_iff)

lemma merge_jobs_rows:
  "(s, j) \<in> set (merge_jobs shifts jobs) \<Longrightarrow> s \<in> set shifts \<and> j \<in> set jobs \<and> id_job j = job_id s"
  by (auto simp: merge_jobs_def)

lemma attach_earnings_sel [simp]:
  "sh (attach_earnings (s, j)) = s" "jb (attach_earnings (s, j)) = j"
  by (simp_all add: attach_earnings_def split: prod.splits)

lemma adjusted_rows_ok:
  fixes shifts :: "shift list" and jobs :: "job list"
  defines "rows \<equiv> map attach_earnings (merge_jobs shifts jobs)"
  shows "\<exists>ys. adjust_all jobs (groupby group_key rows) = Inr ys \<and> length ys = length rows"
proof -
  have "\<exists>j. jobs_loc jobs (fst (fst g)) = Inr j" if "g \<in> set (groupby group_key rows)" for g
  proof -
    from that have "fst g \<in> set (map fst (groupby group_key rows))" by simp
    then have "fst g \<in> group_key ` set rows" by (simp add: groupby_keys)
    then obtain s j where sj: "(s, j) \<in> set (merge_jobs shifts jobs)"
        and "fst g = group_key (attach_earnings (s, j))"
      by (auto simp: rows_def)
    then have "fst (fst g) = job_id s" by (simp add: group_key_def)
    with merge_jobs_rows [OF sj] show ?thesis by (auto intro: jobs_loc_found)
  qed
  then obtain ys where "adjust_all jobs (groupby group_key rows) = Inr ys"
      "length ys = (\<Sum>g\<leftarrow>groupby group_key rows. length (snd g))"
    using adjust_all_length by blast
  then show ?thesis by (simp add: groupby_sizes)
qed

lemma shift_rows_total: "\<exists>rows. shift_rows jobs shifts = Inr rows"
proof (cases "shifts = []")
  case True
  then show ?thesis by (simp add: shift_rows_def)
next
  case False
  obtain ys where
      "adjust_all jobs (groupby group_key (map attach_earnings (merge_jobs shifts jobs))) = Inr ys"
      "length ys = length (map attach_earnings (merge_jobs shifts jobs))"
    using adjusted_rows_ok by blast
  with False show ?thesis by (simp add: shift_rows_def Let_def)
qed

lemma compute_financials_total: "\<exists>F. compute_financials st w = Inr F"
proof -
  obtain rows where
    "shift_rows (list_jobs True (db_jobs w)) (sort_key shift_date (db_shifts w)) = Inr rows"
    using shift_rows_total by blast
  then show ?thesis
    by (simp add: compute_financials_def Let_def)
qed

section \<open>Shifts whose job is not in the job frame\<close>

lemma merge_jobs_filter:
  "merge_jobs (filter (\<lambda>s. job_id s \<in> id_job ` set jobs) shifts) jobs = merge_jobs shifts jobs"
proof (induction shifts)
  case Nil
  show ?case by (simp add: merge_jobs_def)
next
  case (Cons s shifts)
  have "filter (\<lambda>j. id_job j = job_id s) jobs = []" if "job_id s \<notin> id_job ` set jobs"
  proof -
    from that have "\<forall>j\<in>set jobs. id_job j \<noteq> job_id s" by force
    then show ?thesis by (simp add: filter_empty_conv)
  qed
  with Cons show ?case by (auto simp: merge_jobs_def)
qed

lemma merge_jobs_Nil [simp]: "merge_jobs [] jobs = []"
  by (simp add: merge_jobs_def)

lemma groupby_Nil [simp]: "groupby key [] = []"
  by (simp add: groupby_def)

lemma shift_rows_no_match: "merge_jobs shifts jobs = [] \<Longrightarrow> shift_rows jobs shifts = Inr []"
  by (simp add: shift_rows_def)

lemma shift_rows_filter:
  "shift_rows jobs (filter (\<lambda>s. job_id s \<in> id_job ` set jobs) shifts) = shift_rows jobs shifts"
proof (cases "filter (\<lambda>s. job_id s \<in> id_job ` set jobs) shifts = []")
  case True
  then have "merge_jobs shifts jobs = []"
    using merge_jobs_filter [of jobs shifts] by simp
  with True show ?thesis by (simp add: shift_rows_no_match shift_rows_def)
next
  case False
  then have "shifts \<noteq> []" by auto
  with False show ?thesis by (simp add: shift_rows_def merge_jobs_filter)
qed

text \<open>
  Claim C7, as the code has it. The engine raises no referential error: the inner join
  of line 207 leaves out every shift whose job identifier is not among the active jobs,
  before any earnings are computed. The computation returns a result for every
  database, and the result is the one it returns when those shifts are deleted.
\<close>

theorem dangling_shift_dropped:
  "(\<exists>F. compute_financials st w = Inr F)
   \<and> compute_financials st w
     = compute_financials st
         (w\<lparr>db_shifts := filter (\<lambda>s. job_id s \<in> id_job ` set (filter active (db_jobs w)))
                            (db_shifts w)\<rparr>)"
proof
  show "\<exists>F. compute_financials st w = Inr F"
    by (rule compute_financials_total)
next
  have "shift_rows (filter active (db_jobs w))
          (sort_key shift_date
             (filter (\<lambda>s. job_id s \<in> id_job ` set (filter active (db_jobs w))) (db_shifts w)))
      = shift_rows (filter active (db_jobs w)) (sort_key shift_date (db_shifts w))"
    using shift_rows_filter [of "filter active (db_jobs w)" "sort_key shift_date (db_shifts w)"]
    by (simp add: filter_sort)
  then show "compute_financials st w
     = compute_financials st
         (w\<lparr>db_shifts := filter (\<lambda>s. job_id s \<in> id_job ` set (filter active (db_jobs w)))
                            (db_shifts w)\<rparr>)"
    by (simp add: compute_financials_def Let_def list_jobs_def cong: sum.case_cong)
qed

theorem dangling_shift_dropped_witness:
  "compute_financials st0 world_inactive
     = compute_financials st0 (world_inactive\<lparr>db_shifts := [mk_shift 1 1 738886 10]\<rparr>)
   \<and> column (hours \<circ> sh \<circ> cols)
        (compute_financials st0 (world_inactive\<lparr>db_shifts := [mk_shift 1 1 738886 10]\<rparr>))
       = Inr [10]"
proof -
  have f: "filter (\<lambda>s. job_id s \<in> id_job ` set (filter active (db_jobs world_inactive)))
             (db_shifts world_inactive) = [mk_shift 1 1 738886 10]"
    by (simp add: world_inactive_def rn_staff_def rn_prn_def mk_shift_def)
  have v: "column (hours \<circ> sh \<circ> cols)
        (compute_financials st0 (world_inactive\<lparr>db_shifts := [mk_shift 1 1 738886 10]\<rparr>))
       = Inr [10]"
    by code_simp
  from dangling_shift_dropped [of st0 world_inactive] f v show ?thesis
    by simp
qed

text \<open>
  The database with a switched-off job and a job identifier that is in no row: the
  engine returns a result, and of the three shifts (10, 12 and 6 hours) only the first
  is in its rows and weekly totals.
\<close>

theorem dangling_shift_no_error:
  "column (shift_id \<circ> sh \<circ> cols) (compute_financials st0 world_inactive) = Inr [1]
   \<and> column (hours \<circ> sh \<circ> cols) (compute_financials st0 world_inactive) = Inr [10]
   \<and> map_sum id weekly_earnings (compute_financials st0 world_inactive) = Inr [(738880, 418)]"
  by code_simp

section \<open>The weekly overtime adjustment\<close>

lemma weekly_loop_sums:
  assumes "0 \<le> reg_left" and "\<forall>h\<in>set hs. 0 \<le> h"
  shows "(\<Sum>t\<leftarrow>weekly_loop r m reg_left hs. fst t) = min reg_left (sum_list hs)
       \<and> (\<Sum>t\<leftarrow>weekly_loop r m reg_left hs. fst (snd t))
           = sum_list hs - min reg_left (sum_list hs)"
  using assms
proof (induction hs arbitrary: reg_left)
  case Nil
  then show ?case by simp
next
  case (Cons h hs)
  have nn: "0 \<le> sum_list hs" and h0: "0 \<le> h" and rest: "\<forall>x\<in>set hs. 0 \<le> x"
    using Cons.prems by (simp_all add: sum_list_nonneg)
  show ?case
  proof (cases "reg_left \<le> h")
    case True
    then have m: "min reg_left h = reg_left" by simp
    from Cons.IH [of 0] rest nn
    have "(\<Sum>t\<leftarrow>weekly_loop r m 0 hs. fst t) = 0"
      and "(\<Sum>t\<leftarrow>weekly_loop r m 0 hs. fst (snd t)) = sum_list hs"
      by simp_all
    with True nn h0 show ?thesis by (simp add: Let_def m)
  next
    case False
    then have m: "min reg_left h = h" by simp
    from Cons.IH [of "reg_left - h"] rest False
    have "(\<Sum>t\<leftarrow>weekly_loop r m (reg_left - h) hs. fst t)
           = min (reg_left - h) (sum_list hs)"
      and "(\<Sum>t\<leftarrow>weekly_loop r m (reg_left - h) hs. fst (snd t))
           = sum_list hs - min (reg_left - h) (sum_list hs)"
      by simp_all
    with False nn h0 show ?thesis by (simp add: Let_def m min_def)
  qed
qed

lemma weekly_loop_pay:
  "t \<in> set (weekly_loop r m reg_left hs) \<Longrightarrow> pay_of t = fst t * r + fst (snd t) * (r * m)"
  by (induction hs arbitrary: reg_left) (auto simp: Let_def pay_of_def)

lemma attach_earnings_provisional:
  "ot_rule j \<noteq> ''daily_8'' \<Longrightarrow>
     earnings_initial (attach_earnings (s, j)) = hours s * rate_with_diff j
     \<and> daily_regular_hours (attach_earnings (s, j)) = hours s
     \<and> daily_ot_hours (attach_earnings (s, j)) = 0"
  by (simp add: attach_earnings_def calc_shift_earnings_def Let_def)

text \<open>
  What the weekly adjustment appends for a group of a \<^verbatim>\<open>weekly_40\<close> job, in the
  order of the group's rows.
\<close>

lemma adjust_group_weekly_40:
  assumes "jobs_loc jobs jid = Inr j" and "ot_rule j = ''weekly_40''"
  shows "adjust_group jobs ((jid, y, wk), grp) =
           (if (\<Sum>x\<leftarrow>grp. hours (sh x)) \<le> 40
            then Inr (map (\<lambda>x. hours (sh x) * rate_with_diff j) grp)
            else Inr (map pay_of (weekly_loop (rate_with_diff j) (ot_multiplier j) 40
                                    (map (\<lambda>x. hours (sh x)) grp))))"
  using assms by (simp add: adjust_group_def Let_def)

text \<open>
  Claim C3, as the code has it. The hour columns of the output are never overwritten:
  every row of a job whose rule is not \<^verbatim>\<open>daily_8\<close> keeps the provisional split, all
  hours regular and none overtime. The corrected split exists only inside the weekly
  adjustment, where it prices the shifts: for a group of a \<^verbatim>\<open>weekly_40\<close> job with
  non-negative hours that total more than 40, the regular hours of the split sum to
  exactly 40, its overtime hours to the total less 40, and the pay appended for each
  shift is its regular hours at the rate plus its overtime hours at rate times
  multiplier.
\<close>

theorem weekly_split_priced_not_stored:
  "(compute_financials st w = Inr F \<longrightarrow>
       (\<forall>r\<in>set (out_shifts F). ot_rule (jb (cols r)) \<noteq> ''daily_8'' \<longrightarrow>
          daily_regular_hours (cols r) = hours (sh (cols r)) \<and> daily_ot_hours (cols r) = 0))
   \<and> (jobs_loc jobs jid = Inr j \<and> ot_rule j = ''weekly_40''
        \<and> (\<forall>x\<in>set grp. 0 \<le> hours (sh x)) \<and> 40 < (\<Sum>x\<leftarrow>grp. hours (sh x)) \<longrightarrow>
       (let split = weekly_loop (rate_with_diff j) (ot_multiplier j) 40
                      (map (\<lambda>x. hours (sh x)) grp)
        in adjust_group jobs ((jid, y, wk), grp) = Inr (map pay_of split)
           \<and> (\<forall>t\<in>set split. pay_of t = fst t * rate_with_diff j
                                      + fst (snd t) * (rate_with_diff j * ot_multiplier j))
           \<and> (\<Sum>t\<leftarrow>split. fst t) = 40
           \<and> (\<Sum>t\<leftarrow>split. fst (snd t)) = (\<Sum>x\<leftarrow>grp. hours (sh x)) - 40))"
proof (rule conjI; intro impI ballI)
  fix r
  assume F: "compute_financials st w = Inr F" and r: "r \<in> set (out_shifts F)"
    and nd: "ot_rule (jb (cols r)) \<noteq> ''daily_8''"
  from F obtain rows where
    rows: "shift_rows (list_jobs True (db_jobs w)) (sort_key shift_date (db_shifts w)) = Inr rows"
    and "F = summarise (list_jobs True (db_jobs w)) rows
               (sort_key expense_date (db_expenses w)) (clock_today w)"
    by (auto simp: compute_financials_def Let_def split: sum.splits)
  with r have "r \<in> set rows" by (simp add: summarise_def Let_def)
  with rows obtain s j where c: "cols r = attach_earnings (s, j)"
    by (auto simp: shift_rows_def Let_def split: if_splits sum.splits dest!: set_zip_leftD)
  with nd have "ot_rule j \<noteq> ''daily_8''" by simp
  from attach_earnings_provisional [OF this, of s] c
  show "daily_regular_hours (cols r) = hours (sh (cols r)) \<and> daily_ot_hours (cols r) = 0"
    by simp
next
  assume a: "jobs_loc jobs jid = Inr j \<and> ot_rule j = ''weekly_40''
        \<and> (\<forall>x\<in>set grp. 0 \<le> hours (sh x)) \<and> 40 < (\<Sum>x\<leftarrow>grp. hours (sh x))"
  let ?hs = "map (\<lambda>x. hours (sh x)) grp"
  let ?split = "weekly_loop (rate_with_diff j) (ot_multiplier j) 40 ?hs"
  have nn: "\<forall>h\<in>set ?hs. 0 \<le> h" using a by simp
  have big: "40 < sum_list ?hs" using a by simp
  have 1: "adjust_group jobs ((jid, y, wk), grp) = Inr (map pay_of ?split)"
    using a by (simp add: adjust_group_def Let_def)
  have 2: "\<forall>t\<in>set ?split. pay_of t = fst t * rate_with_diff j
                                      + fst (snd t) * (rate_with_diff j * ot_multiplier j)"
    using weekly_loop_pay by blast
  have 3: "(\<Sum>t\<leftarrow>?split. fst t) = 40"
       "(\<Sum>t\<leftarrow>?split. fst (snd t)) = sum_list ?hs - 40"
    using weekly_loop_sums [OF _ nn, of 40 "rate_with_diff j" "ot_multiplier j"] big
    by simp_all
  show "let split = ?split
        in adjust_group jobs ((jid, y, wk), grp) = Inr (map pay_of split)
           \<and> (\<forall>t\<in>set split. pay_of t = fst t * rate_with_diff j
                                      + fst (snd t) * (rate_with_diff j * ot_multiplier j))
           \<and> (\<Sum>t\<leftarrow>split. fst t) = 40
           \<and> (\<Sum>t\<leftarrow>split. fst (snd t)) = (\<Sum>x\<leftarrow>grp. hours (sh x)) - 40"
    unfolding Let_def using 1 2 3 by (simp add: comp_def)
qed

theorem weekly_split_priced_not_stored_witness:
  "compute_financials st0 world_busy_week
     = Inr (projr (compute_financials st0 world_busy_week))
   \<and> list_all (\<lambda>r. ot_rule (jb (cols r)) \<noteq> ''daily_8''
                    \<and> daily_regular_hours (cols r) = hours (sh (cols r))
                    \<and> daily_ot_hours (cols r) = 0)
        (out_shifts (projr (compute_financials st0 world_busy_week)))
   \<and> map cols (out_shifts (projr (compute_financials st0 world_busy_week))) = busy_week_rows
   \<and> jobs_loc [job_B] 1 = Inr job_B \<and> ot_rule job_B = ''weekly_40''
   \<and> list_all (\<lambda>x. 0 \<le> hours (sh x)) busy_week_rows
   \<and> 40 < (\<Sum>x\<leftarrow>busy_week_rows. hours (sh x))
   \<and> adjust_group [job_B] ((1, 2024, 1), busy_week_rows)
       = Inr (map pay_of (weekly_loop (rate_with_diff job_B) (ot_multiplier job_B) 40
                            (map (\<lambda>x. hours (sh x)) busy_week_rows)))
   \<and> (\<Sum>t\<leftarrow>weekly_loop (rate_with_diff job_B) (ot_multiplier job_B) 40
                (map (\<lambda>x. hours (sh x)) busy_week_rows). fst t) = 40
   \<and> (\<Sum>t\<leftarrow>weekly_loop (rate_with_diff job_B) (ot_multiplier job_B) 40
                (map (\<lambda>x. hours (sh x)) busy_week_rows). fst (snd t))
       = (\<Sum>x\<leftarrow>busy_week_rows. hours (sh x)) - 40
   \<and> weekly_loop (rate_with_diff job_B) (ot_multiplier job_B) 40
        (map (\<lambda>x. hours (sh x)) busy_week_rows)
       = [(12, 0, 684), (12, 0, 684), (12, 0, 684), (4, 4, 570)]"
proof -
  let ?F = "projr (compute_financials st0 world_busy_week)"
  let ?split = "weekly_loop (rate_with_diff job_B) (ot_multiplier job_B) 40
                  (map (\<lambda>x. hours (sh x)) busy_week_rows)"
  obtain F where "compute_financials st0 world_busy_week = Inr F"
    using compute_financials_total by blast
  then have p: "compute_financials st0 world_busy_week = Inr ?F"
    by simp
  have nd: "list_all (\<lambda>r. ot_rule (jb (cols r)) \<noteq> ''daily_8'') (out_shifts ?F)"
    by code_simp
  have rows: "map cols (out_shifts ?F) = busy_week_rows"
    by code_simp
  have h1: "jobs_loc [job_B] 1 = Inr job_B" and h2: "ot_rule job_B = ''weekly_40''"
    by (simp_all add: jobs_loc_def job_B_def)
  have h3: "list_all (\<lambda>x. 0 \<le> hours (sh x)) busy_week_rows"
    by code_simp
  have h4: "40 < (\<Sum>x\<leftarrow>busy_week_rows. hours (sh x))"
    by code_simp
  have v: "?split = [(12, 0, 684), (12, 0, 684), (12, 0, 684), (4, 4, 570)]"
    by code_simp
  note inst = weekly_split_priced_not_stored
    [where st = st0 and w = world_busy_week and F = ?F and jobs = "[job_B]" and jid = 1
       and j = job_B and grp = busy_week_rows and y = 2024 and wk = 1]
  from inst p have "\<forall>r\<in>set (out_shifts ?F). ot_rule (jb (cols r)) \<noteq> ''daily_8'' \<longrightarrow>
          daily_regular_hours (cols r) = hours (sh (cols r)) \<and> daily_ot_hours (cols r) = 0"
    by blast
  with nd have c1: "list_all (\<lambda>r. ot_rule (jb (cols r)) \<noteq> ''daily_8''
                    \<and> daily_regular_hours (cols r) = hours (sh (cols r))
                    \<and> daily_ot_hours (cols r) = 0) (out_shifts ?F)"
    by (simp add: list_all_iff)
  from h3 have h3': "\<forall>x\<in>set busy_week_rows. 0 \<le> hours (sh x)"
    by (simp add: list_all_iff)
  from inst h1 h2 h3' h4
  have c2: "adjust_group [job_B] ((1, 2024, 1), busy_week_rows) = Inr (map pay_of ?split)"
    and c3: "(\<Sum>t\<leftarrow>?split. fst t) = 40"
    and c4: "(\<Sum>t\<leftarrow>?split. fst (snd t)) = (\<Sum>x\<leftarrow>busy_week_rows. hours (sh x)) - 40"
    unfolding Let_def by blast+
  from p c1 rows h1 h2 h3 h4 c2 c3 c4 v show ?thesis
    by blast
qed

text \<open>
  Job B's week of 44 hours: the output's regular hours are 12, 12, 12 and 8, which sum
  to 44 and not to 40, and its overtime hours are all 0 and do not sum to 4; only the
  earnings, 684, 684, 684 and 570, carry the split.
\<close>

theorem busy_week_hours_not_corrected:
  "column (daily_regular_hours \<circ> cols) (compute_financials st0 world_busy_week)
     = Inr [12, 12, 12, 8]
   \<and> column (daily_ot_hours \<circ> cols) (compute_financials st0 world_busy_week)
     = Inr [0, 0, 0, 0]
   \<and> map_sum id sum_list
        (column (daily_regular_hours \<circ> cols) (compute_financials st0 world_busy_week))
     = Inr 44
   \<and> map_sum id sum_list
        (column (daily_ot_hours \<circ> cols) (compute_financials st0 world_busy_week))
     = Inr 0
   \<and> column earnings (compute_financials st0 world_busy_week) = Inr [684, 684, 684, 570]"
  by code_simp

subsection \<open>The order of the rows and of the adjusted earnings\<close>

text \<open>
  The rows of every group are in ascending date order, because the query sorts the
  shifts and the merge and the grouping keep the order of the rows.
\<close>

lemma sorted_map_const: "sorted (map (\<lambda>x. c) xs)"
  by (induction xs) auto

lemma merged_rows_sorted:
  assumes "sorted (map shift_date shifts)"
  shows "sorted (map (\<lambda>r. shift_date (sh r)) (map attach_earnings (merge_jobs shifts jobs)))"
  using assms
proof (induction shifts)
  case Nil
  show ?case by simp
next
  case (Cons s shifts)
  have split: "merge_jobs (s # shifts) jobs
      = map (\<lambda>j. (s, j)) (filter (\<lambda>j. id_job j = job_id s) jobs) @ merge_jobs shifts jobs"
    by (simp add: merge_jobs_def)
  have later: "shift_date s \<le> shift_date (sh (attach_earnings p))"
    if "p \<in> set (merge_jobs shifts jobs)" for p
  proof -
    obtain s' j where p: "p = (s', j)" by (cases p)
    with that have "s' \<in> set shifts" using merge_jobs_rows by blast
    with Cons.prems p show ?thesis by auto
  qed
  from Cons have "sorted (map (\<lambda>r. shift_date (sh r))
                            (map attach_earnings (merge_jobs shifts jobs)))"
    by simp
  with later show ?case
    by (auto simp: split sorted_append comp_def sorted_map_const)
qed

lemma group_rows_in_date_order:
  assumes "(k, grp) \<in> set (groupby group_key
              (map attach_earnings
                 (merge_jobs (sort_key shift_date tbl) jobs)))"
  shows "sorted (map (\<lambda>r. shift_date (sh r)) grp)"
proof -
  have "sorted (map shift_date (sort_key shift_date tbl))"
    by (rule sorted_sort_key)
  then have "sorted (map (\<lambda>r. shift_date (sh r))
                       (map attach_earnings (merge_jobs (sort_key shift_date tbl) jobs)))"
    by (rule merged_rows_sorted)
  moreover from assms obtain P where
    "grp = filter P (map attach_earnings (merge_jobs (sort_key shift_date tbl) jobs))"
    by (auto simp: groupby_def)
  ultimately show ?thesis
    using sorted_filter by blast
qed

text \<open>
  Claim C1. Within the weekly adjustment a \<^verbatim>\<open>weekly_40\<close> group is priced as the
  claim says (\<open>adjust_group_weekly_40\<close> above), but the adjusted earnings are appended
  group by group in the order of the keys (job, year, week) and become the column
  \<^verbatim>\<open>earnings\<close> by position, beside rows that are in date order. With the two seeded
  jobs, the per-diem job on Monday and the staff job on Tuesday, the staff shift of 10
  hours at rate 41.8, in a week of 10 hours, should earn 418 and the per-diem shift 456,
  as the initial earnings have it; the final column gives 418 to the per-diem shift and
  456 to the staff shift.
\<close>

theorem alternating_jobs_misassigned:
  "column (shift_id \<circ> sh \<circ> cols) (compute_financials st0 world_two_jobs) = Inr [1, 2]
   \<and> column (id_job \<circ> jb \<circ> cols) (compute_financials st0 world_two_jobs) = Inr [2, 1]
   \<and> column (ot_rule \<circ> jb \<circ> cols) (compute_financials st0 world_two_jobs)
       = Inr [''daily_8'', ''weekly_40'']
   \<and> column (hours \<circ> sh \<circ> cols) (compute_financials st0 world_two_jobs) = Inr [8, 10]
   \<and> column (rate_with_diff \<circ> jb \<circ> cols) (compute_financials st0 world_two_jobs)
       = Inr [57, 209 / 5]
   \<and> column (earnings_initial \<circ> cols) (compute_financials st0 world_two_jobs)
       = Inr [456, 418]
   \<and> column earnings (compute_financials st0 world_two_jobs) = Inr [418, 456]"
  by code_simp

section \<open>Weekly buckets\<close>

text \<open>
  The key of a bucket is always a Tuesday, the latest one not after the date; the
  Monday-start week of a date begins on the latest Monday not after it. A Monday is
  therefore keyed by the Tuesday six days before it.
\<close>

lemma period_W_MON_start_tuesday:
  "weekday (period_W_MON_start d) = 1
   \<and> period_W_MON_start d \<le> d \<and> d < period_W_MON_start d + 7"
  unfolding period_W_MON_start_def weekday_def by presburger

lemma monday_of_week_monday:
  "weekday (monday_of_week d) = 0 \<and> monday_of_week d \<le> d \<and> d < monday_of_week d + 7"
  unfolding monday_of_week_def weekday_def by presburger

lemma monday_bucketed_on_tuesday:
  "weekday d = 0 \<Longrightarrow> period_W_MON_start d = d - 6 \<and> monday_of_week d = d"
  unfolding period_W_MON_start_def monday_of_week_def weekday_def by presburger

text \<open>
  Claim C4. Job A works Tuesday 2024-01-02 and Monday 2024-01-08, an expense falls on
  that Monday, and the clock stands on that Monday. The Monday-start weeks of the two
  shifts begin on 2024-01-01 and 2024-01-08, but both shifts and the expense are keyed
  by Tuesday 2024-01-02, the weekly series have that single key, and the earnings of the
  current week are those of both shifts, 608, not the 304 of the Monday shift.
\<close>

theorem monday_in_tuesday_bucket:
  "column (shift_date \<circ> sh \<circ> cols) (compute_financials st0 world_monday) = Inr [738887, 738893]
   \<and> map weekday [738887, 738893] = [1, 0]
   \<and> map monday_of_week [738887, 738893] = [738886, 738893]
   \<and> column week_start (compute_financials st0 world_monday) = Inr [738887, 738887]
   \<and> map_sum id weekly_earnings (compute_financials st0 world_monday) = Inr [(738887, 608)]
   \<and> map_sum id weekly_expenses (compute_financials st0 world_monday) = Inr [(738887, 60)]
   \<and> map_sum id earnings_this_week (compute_financials st0 world_monday) = Inr 608"
  by code_simp

section \<open>Annual projection\<close>

lemma filled_merge:
  "fillna 0 (outer_merge we wx)
   = map (\<lambda>k. (k, series_value we k, series_value wx k))
       (sort (remdups (map fst we @ map fst wx)))"
  by (simp add: fillna_def outer_merge_def series_value_def comp_def)

lemma annual_projection_mean: "annual_projection we wx = mean_net_times_52 we wx"
proof -
  let ?ks = "sort (remdups (map fst we @ map fst wx))"
  let ?W = "fst ` set we \<union> fst ` set wx"
  have d: "distinct ?ks" and s: "set ?ks = ?W" by simp_all
  have len: "length ?ks = card ?W" using distinct_card [OF d] s by simp
  have sm: "(\<Sum>k\<leftarrow>?ks. series_value we k - series_value wx k)
          = (\<Sum>k\<in>?W. series_value we k - series_value wx k)"
    using sum_list_distinct_conv_sum_set [OF d, of "\<lambda>k. series_value we k - series_value wx k"] s
    by simp
  have e: "?W = {} \<longleftrightarrow> ?ks = []" using s by (metis set_empty)
  show ?thesis
  proof (cases "?ks = []")
    case True
    with e show ?thesis
      by (simp add: annual_projection_def mean_net_times_52_def filled_merge Let_def)
  next
    case False
    with e have "?W \<noteq> {}" by simp
    with False len sm show ?thesis
      by (simp add: annual_projection_def mean_net_times_52_def filled_merge Let_def comp_def)
  qed
qed

text \<open>
  Claim C5. The projected annual net is the mean of weekly earnings less weekly
  expenses over exactly the weeks present in either weekly series, a value missing from
  one series counting as 0, multiplied by 52; it is 0 when neither series has a week.
\<close>

theorem projected_annual_net_mean:
  assumes "compute_financials st w = Inr F"
  shows "projected_annual_net F = mean_net_times_52 (weekly_earnings F) (weekly_expenses F)"
proof -
  from assms obtain rows where
    "F = summarise (list_jobs True (db_jobs w)) rows (sort_key expense_date (db_expenses w))
           (clock_today w)"
    by (auto simp: compute_financials_def Let_def split: sum.splits)
  then show ?thesis
    by (simp add: summarise_def Let_def annual_projection_mean)
qed

theorem projected_annual_net_mean_witness:
  "compute_financials st0 world_three_weeks
     = Inr (projr (compute_financials st0 world_three_weeks))
   \<and> projected_annual_net (projr (compute_financials st0 world_three_weeks))
       = mean_net_times_52
           (weekly_earnings (projr (compute_financials st0 world_three_weeks)))
           (weekly_expenses (projr (compute_financials st0 world_three_weeks)))
   \<and> weekly_earnings (projr (compute_financials st0 world_three_weeks))
       = [(738880, 418), (738887, 456)]
   \<and> weekly_expenses (projr (compute_financials st0 world_three_weeks)) = [(738859, 1498)]
   \<and> projected_annual_net (projr (compute_financials st0 world_three_weeks)) = - 10816"
proof -
  obtain F where F: "compute_financials st0 world_three_weeks = Inr F"
    using compute_financials_total by blast
  then have p: "compute_financials st0 world_three_weeks
     = Inr (projr (compute_financials st0 world_three_weeks))"
    by simp
  have v: "weekly_earnings (projr (compute_financials st0 world_three_weeks))
       = [(738880, 418), (738887, 456)]"
    "weekly_expenses (projr (compute_financials st0 world_three_weeks)) = [(738859, 1498)]"
    "projected_annual_net (projr (compute_financials st0 world_three_weeks)) = - 10816"
    by code_simp+
  from projected_annual_net_mean [OF p] p v show ?thesis
    by blast
qed

section \<open>What the engine reads\<close>

text \<open>
  Claim C6, as the code has it. \<^verbatim>\<open>compute_financials\<close> has one parameter, the
  settings, which it does not use. It reads the jobs, shifts and expenses from the
  database and the reference date from the system clock. Its result is determined by
  the active jobs, the shifts, the expenses and the clock's date: two invocations in
  which these agree return the same result, whatever the settings and the inactive jobs.
\<close>

theorem compute_financials_reads:
  assumes "filter active (db_jobs w) = filter active (db_jobs w')"
    and "db_shifts w = db_shifts w'" and "db_expenses w = db_expenses w'"
    and "clock_today w = clock_today w'"
  shows "compute_financials st w = compute_financials st' w'"
  using assms by (simp add: compute_financials_def list_jobs_def Let_def cong: sum.case_cong)

theorem compute_financials_reads_witness:
  "filter active (db_jobs world_inactive)
     = filter active (db_jobs (world_inactive\<lparr>db_jobs := [rn_staff]\<rparr>))
   \<and> db_shifts world_inactive = db_shifts (world_inactive\<lparr>db_jobs := [rn_staff]\<rparr>)
   \<and> db_expenses world_inactive = db_expenses (world_inactive\<lparr>db_jobs := [rn_staff]\<rparr>)
   \<and> clock_today world_inactive = clock_today (world_inactive\<lparr>db_jobs := [rn_staff]\<rparr>)
   \<and> compute_financials st0 world_inactive
       = compute_financials (st0\<lparr>week_monday := True\<rparr>) (world_inactive\<lparr>db_jobs := [rn_staff]\<rparr>)"
proof -
  have a: "filter active (db_jobs world_inactive)
     = filter active (db_jobs (world_inactive\<lparr>db_jobs := [rn_staff]\<rparr>))"
    by (simp add: world_inactive_def rn_staff_def rn_prn_def)
  have b: "db_shifts world_inactive = db_shifts (world_inactive\<lparr>db_jobs := [rn_staff]\<rparr>)"
    and c: "db_expenses world_inactive = db_expenses (world_inactive\<lparr>db_jobs := [rn_staff]\<rparr>)"
    and d: "clock_today world_inactive = clock_today (world_inactive\<lparr>db_jobs := [rn_staff]\<rparr>)"
    by simp_all
  from compute_financials_reads [OF a b c d] a b c d show ?thesis
    by blast
qed

text \<open>
  The same settings and the same tables at two dates of the clock: the earnings of the
  current week are 456 on 2024-01-05 and 0 on 2024-01-15.
\<close>

theorem clock_changes_result:
  "map_sum id earnings_this_week (compute_financials st0 world_two_jobs) = Inr 456
   \<and> map_sum id earnings_this_week
        (compute_financials st0 (world_two_jobs\<lparr>clock_today := 738900\<rparr>)) = Inr 0"
  by code_simp

end
